theory Spec2Isabelle
  imports Main
begin

section \<open>The clone bridge of git2go (clone.go)\<close>

text \<open>
  The file \<^verbatim>\<open>clone.go\<close> drives the native clone primitive of libgit2 from Go and lets
  the caller replace the creation of the remote by a Go callback. This theory embeds the
  four functions of the file (\<^verbatim>\<open>Clone\<close>, \<^verbatim>\<open>remoteCreateCallback\<close>,
  \<^verbatim>\<open>populateCloneOptions\<close>, \<^verbatim>\<open>freeCloneOptions\<close>) as state transformers on an explicit
  world: the handle registry, the C heap, the finalizer table of the Go runtime and the
  \<^verbatim>\<open>error\<close> variables that the callback data points to.

  Thread pinning (\<^verbatim>\<open>runtime.LockOSThread\<close> and its deferred unlock) has no effect on a
  sequential run and is left out.
\<close>

subsection \<open>Pointers, strings, aborts and errors\<close>

text \<open>A native pointer is an address or \<^verbatim>\<open>NULL\<close> (\<open>None\<close>).\<close>

type_synonym cptr = "nat option"

text \<open>
  A \<^verbatim>\<open>char *\<close> handed to Go by the engine: \<^verbatim>\<open>NULL\<close>, or the bytes before the terminator.
  \<^verbatim>\<open>C.GoString\<close> copies them; on \<^verbatim>\<open>NULL\<close> it yields the empty string.
\<close>

type_synonym cstring = "string option"

definition C_GoString :: "cstring \<Rightarrow> string" where
  "C_GoString p = (case p of None \<Rightarrow> [] | Some s \<Rightarrow> s)"

text \<open>
  Two ways in which Go code stops instead of returning: a panic (it unwinds the stack and
  runs the deferred calls on its way) and a fatal error of the runtime (the process ends
  at once).
\<close>

datatype abort = Panic string | Fatal string

definition nil_dereference :: abort where
  "nil_dereference = Panic ''runtime error: invalid memory address or nil pointer dereference''"

text \<open>
  \<^verbatim>\<open>ErrorCode(ret).String()\<close> and \<^verbatim>\<open>MakeGitError(ret)\<close> are defined outside clone.go (a
  generated table of names; a reader of the engine's last error). Their results are kept
  symbolic: the text of a code, and the errors built from either.
\<close>

datatype message = ErrorCode_String int

datatype go_error = errors_New message | MakeGitError int

text \<open>
  The two codes the file names, with the values of \<^verbatim>\<open>GIT_OK\<close> and \<^verbatim>\<open>GIT_EUSER\<close> in the
  engine's header.
\<close>

definition ErrorCodeOK :: int where
  "ErrorCodeOK = 0"

definition ErrorCodeUser :: int where
  "ErrorCodeUser = - 7"

subsection \<open>Managed wrappers and the configuration\<close>

text \<open>
  A wrapper is a Go heap object (its identity is its address) around a native pointer.
\<close>

record Repository =
  repository_obj :: nat
  repository_ptr :: cptr

record Remote =
  remote_obj :: nat
  remote_ptr :: cptr

text \<open>
  \<^verbatim>\<open>type RemoteCreateCallback func(repo *Repository, name, url string) (*Remote, ErrorCode)\<close>.
  The callback is represented by the values it returns; \<open>None\<close> is the nil \<^verbatim>\<open>*Remote\<close>.
\<close>

type_synonym RemoteCreateCallback = "Repository \<Rightarrow> string \<Rightarrow> string \<Rightarrow> Remote option \<times> int"

text \<open>
  \<^verbatim>\<open>CloneOptions\<close>. The checkout and fetch configurations belong to other files; their
  contents are the type parameters \<open>'c\<close> and \<open>'f\<close>, and \<open>None\<close> is the nil pointer.
\<close>

record ('c, 'f) CloneOptions =
  CheckoutOpts :: "'c option"
  FetchOptions :: "'f option"
  Bare :: bool
  CheckoutBranch :: string
  RemoteCreateCallback :: "RemoteCreateCallback option"

text \<open>\<^verbatim>\<open>cloneCallbackData\<close>: the options and the address of the caller's \<^verbatim>\<open>err\<close> variable.\<close>

record ('c, 'f) cloneCallbackData =
  options :: "('c, 'f) CloneOptions"
  errorTarget :: nat

subsection \<open>The native options\<close>

text \<open>
  Modelled from the spec: the checkout and fetch translators (\<^verbatim>\<open>populateCheckoutOptions\<close>,
  \<^verbatim>\<open>populateFetchOptions\<close>, not in clone.go) are collaborators of the form
  \<open>Translate(config) -> nativeOptions\<close>. A native sub-structure is therefore represented
  by where it came from: the engine's initialiser, or the translation of a configuration.
\<close>

datatype 'a translated = Defaults | TranslatedFrom "'a option"

definition populateCheckoutOptions :: "'c translated \<Rightarrow> 'c option \<Rightarrow> nat \<Rightarrow> 'c translated" where
  "populateCheckoutOptions ptr opts target = TranslatedFrom opts"

definition populateFetchOptions :: "'f translated \<Rightarrow> 'f option \<Rightarrow> 'f translated" where
  "populateFetchOptions ptr opts = TranslatedFrom opts"

text \<open>
  The fields of \<^verbatim>\<open>git_clone_options\<close> that clone.go touches. \<open>remote_cb\<close> says whether the
  remote-creation hook is installed (the only function ever installed is the trampoline).
\<close>

record ('c, 'f) git_clone_options =
  checkout_opts :: "'c translated"
  fetch_opts :: "'f translated"
  bare :: int
  checkout_branch :: cptr
  remote_cb :: bool
  remote_cb_payload :: cptr

text \<open>\<^verbatim>\<open>git_clone_options_init\<close>: the engine's defaults, whatever the structure held.\<close>

definition git_clone_options_init :: "('c, 'f) git_clone_options \<Rightarrow> ('c, 'f) git_clone_options" where
  "git_clone_options_init ptr =
     \<lparr>checkout_opts = Defaults, fetch_opts = Defaults, bare = 0, checkout_branch = None,
      remote_cb = False, remote_cb_payload = None\<rparr>"

text \<open>The zero value \<^verbatim>\<open>C.git_clone_options{}\<close>.\<close>

definition git_clone_options_zero :: "('c, 'f) git_clone_options" where
  "git_clone_options_zero =
     \<lparr>checkout_opts = Defaults, fetch_opts = Defaults, bare = 0, checkout_branch = None,
      remote_cb = False, remote_cb_payload = None\<rparr>"

definition cbool :: "bool \<Rightarrow> int" where
  "cbool b = (if b then 1 else 0)"

text \<open>
  Modelled from the spec: \<^verbatim>\<open>_go_git_populate_clone_callbacks\<close> (a C helper, not in
  clone.go) installs the trampoline as the engine's remote-creation hook.
\<close>

definition go_git_populate_clone_callbacks :: "('c, 'f) git_clone_options \<Rightarrow> ('c, 'f) git_clone_options" where
  "go_git_populate_clone_callbacks ptr = ptr\<lparr>remote_cb := True\<rparr>"

subsection \<open>The world\<close>

text \<open>What the handle registry holds: callback data of a clone, or an object of another kind.\<close>

datatype ('c, 'f) tracked = CloneCallbackData "('c, 'f) cloneCallbackData" | OtherObject nat

text \<open>What the engine sees when the clone primitive is called: the two strings, the
  options, and the bytes its branch field points to.\<close>

record ('c, 'f) native_call =
  nc_url :: "string option"
  nc_path :: "string option"
  nc_options :: "('c, 'f) git_clone_options option"
  nc_branch :: "string option"

text \<open>Calls that leave clone.go, recorded in the order they happen.\<close>

datatype ('c, 'f) event =
    NativeClone "('c, 'f) native_call"
  | Trampoline cptr
  | FreeCheckoutOptions "'c translated"

record ('c, 'f) world =
  handles :: "(nat \<times> ('c, 'f) tracked) list"
  c_heap :: "nat \<rightharpoonup> string"
  c_next :: nat
  finalizers :: "nat set"
  error_vars :: "nat \<Rightarrow> go_error option"
  go_next :: nat
  trace :: "('c, 'f) event list"

subsection \<open>The handle registry\<close>

text \<open>
  Modelled from the spec: \<^verbatim>\<open>pointerHandles\<close> (not in clone.go) offers
  \<open>Track(object) -> token\<close>, \<open>Get(token)\<close> and \<open>Untrack(token)\<close>; a token is unique while
  it is tracked and never \<^verbatim>\<open>NULL\<close>, and \<open>Get\<close> on a token that is not tracked is fatal.
\<close>

definition fresh_handle :: "(nat \<times> 'a) list \<Rightarrow> nat" where
  "fresh_handle hs = Suc (foldr max (map fst hs) 0)"

definition handles_Track :: "('c, 'f) tracked \<Rightarrow> ('c, 'f) world \<Rightarrow> nat \<times> ('c, 'f) world" where
  "handles_Track obj w =
     (fresh_handle (handles w), w\<lparr>handles := handles w @ [(fresh_handle (handles w), obj)]\<rparr>)"

definition handles_Untrack :: "nat \<Rightarrow> ('c, 'f) world \<Rightarrow> ('c, 'f) world" where
  "handles_Untrack t w = w\<lparr>handles := filter (\<lambda>e. fst e \<noteq> t) (handles w)\<rparr>"

definition handles_Get :: "('c, 'f) world \<Rightarrow> cptr \<Rightarrow> abort + ('c, 'f) tracked" where
  "handles_Get w handle =
     (case handle of
        None \<Rightarrow> Inl (Panic ''invalid pointer handle'')
      | Some t \<Rightarrow>
          (case map_of (handles w) t of
             None \<Rightarrow> Inl (Panic ''invalid pointer handle'')
           | Some obj \<Rightarrow> Inr obj))"

subsection \<open>The C heap\<close>

text \<open>\<^verbatim>\<open>C.CString\<close> copies the bytes and a terminator into a fresh buffer; \<^verbatim>\<open>C.free\<close>
  releases a buffer and does nothing on \<^verbatim>\<open>NULL\<close>.\<close>

definition C_CString :: "string \<Rightarrow> ('c, 'f) world \<Rightarrow> nat \<times> ('c, 'f) world" where
  "C_CString s w =
     (c_next w, w\<lparr>c_heap := (c_heap w)(c_next w \<mapsto> s @ [CHR 0x00]), c_next := Suc (c_next w)\<rparr>)"

definition C_free :: "cptr \<Rightarrow> ('c, 'f) world \<Rightarrow> ('c, 'f) world" where
  "C_free p w = (case p of None \<Rightarrow> w | Some a \<Rightarrow> w\<lparr>c_heap := (c_heap w)(a := None)\<rparr>)"

subsection \<open>Wrappers and finalizers\<close>

text \<open>
  Modelled from the spec: \<^verbatim>\<open>newRepositoryFromC\<close> (not in clone.go) allocates the wrapper
  of a native repository pointer and makes it the owner: the wrapper has a finalizer.
\<close>

definition newRepositoryFromC :: "cptr \<Rightarrow> ('c, 'f) world \<Rightarrow> Repository \<times> ('c, 'f) world" where
  "newRepositoryFromC ptr w =
     (\<lparr>repository_obj = go_next w, repository_ptr = ptr\<rparr>,
      w\<lparr>finalizers := insert (go_next w) (finalizers w), go_next := Suc (go_next w)\<rparr>)"

text \<open>
  \<^verbatim>\<open>runtime.SetFinalizer(obj, nil)\<close> of the Go runtime, on a pointer to a wrapper: it
  clears the finalizer of the object; on a nil pointer there is no object, and the runtime
  ends the program (\<^verbatim>\<open>fatal error: runtime.SetFinalizer: pointer not in heap\<close>).
\<close>

definition SetFinalizer_fault :: abort where
  "SetFinalizer_fault = Fatal ''runtime.SetFinalizer: pointer not in heap''"

definition runtime_SetFinalizer_nil :: "nat option \<Rightarrow> ('c, 'f) world \<Rightarrow> abort + ('c, 'f) world" where
  "runtime_SetFinalizer_nil obj w =
     (case obj of
        None \<Rightarrow> Inl SetFinalizer_fault
      | Some a \<Rightarrow> Inr (w\<lparr>finalizers := finalizers w - {a}\<rparr>))"

definition new_error_var :: "('c, 'f) world \<Rightarrow> nat \<times> ('c, 'f) world" where
  "new_error_var w =
     (go_next w, w\<lparr>error_vars := (error_vars w)(go_next w := None), go_next := Suc (go_next w)\<rparr>)"

subsection \<open>The trampoline\<close>

text \<open>
  \<^verbatim>\<open>remoteCreateCallback\<close> (lines 57 to 92). The output parameter \<^verbatim>\<open>cremote\<close> is returned:
  \<open>Some p\<close> when \<open>p\<close> was written through it, \<open>None\<close> when nothing was written.
\<close>

definition remoteCreateCallback ::
  "cptr \<Rightarrow> cstring \<Rightarrow> cstring \<Rightarrow> cptr \<Rightarrow> ('c, 'f) world \<Rightarrow> (abort + (cptr option \<times> int)) \<times> ('c, 'f) world" where
  "remoteCreateCallback crepo cname curl payload w0 =
     (let w = w0\<lparr>trace := trace w0 @ [Trampoline payload]\<rparr>;
          name = C_GoString cname;
          url = C_GoString curl;
          (repo, w1) = newRepositoryFromC crepo w
      in case runtime_SetFinalizer_nil (Some (repository_obj repo)) w1 of
           Inl a \<Rightarrow> (Inl a, w1)
         | Inr w2 \<Rightarrow>
             (case handles_Get w2 payload of
                Inl a \<Rightarrow> (Inl a, w2)
              | Inr (OtherObject x) \<Rightarrow> (Inl (Panic ''invalid remote create callback''), w2)
              | Inr (CloneCallbackData data) \<Rightarrow>
                  (case RemoteCreateCallback (options data) of
                     None \<Rightarrow> (Inl nil_dereference, w2)
                   | Some cb \<Rightarrow>
                       (let (remote, ret) = cb repo name url
                        in case runtime_SetFinalizer_nil (map_option remote_obj remote) w2 of
                             Inl a \<Rightarrow> (Inl a, w2)
                           | Inr w3 \<Rightarrow>
                               if ret < 0 then
                                 (Inr (None, ErrorCodeUser),
                                  w3\<lparr>error_vars := (error_vars w3)
                                     (errorTarget data := Some (errors_New (ErrorCode_String ret)))\<rparr>)
                               else
                                 (case remote of
                                    None \<Rightarrow> (Inl (Panic ''no remote created by callback''), w3)
                                  | Some r \<Rightarrow> (Inr (Some (remote_ptr r), ErrorCodeOK), w3))))))"

subsection \<open>Translating and releasing the options\<close>

text \<open>
  \<^verbatim>\<open>populateCloneOptions\<close> (lines 99 to 120). \<open>ptr\<close> is the structure the pointer argument
  points to; the result is \<open>None\<close> for the nil pointer that line 103 returns.
\<close>

definition populateCloneOptions ::
  "('c, 'f) git_clone_options \<Rightarrow> ('c, 'f) CloneOptions option \<Rightarrow> nat \<Rightarrow> ('c, 'f) world
     \<Rightarrow> ('c, 'f) git_clone_options option \<times> ('c, 'f) world" where
  "populateCloneOptions ptr opts target w =
     (let ptr0 = git_clone_options_init ptr
      in case opts of
           None \<Rightarrow> (None, w)
         | Some cfg \<Rightarrow>
             (let ptr1 = ptr0\<lparr>checkout_opts := populateCheckoutOptions (checkout_opts ptr0) (CheckoutOpts cfg) target\<rparr>;
                  ptr2 = ptr1\<lparr>fetch_opts := populateFetchOptions (fetch_opts ptr1) (FetchOptions cfg)\<rparr>;
                  ptr3 = ptr2\<lparr>bare := cbool (Bare cfg)\<rparr>
              in case RemoteCreateCallback cfg of
                   None \<Rightarrow> (Some ptr3, w)
                 | Some cb \<Rightarrow>
                     (let data = \<lparr>options = cfg, errorTarget = target\<rparr>;
                          ptr4 = go_git_populate_clone_callbacks ptr3;
                          (token, w') = handles_Track (CloneCallbackData data) w
                      in (Some (ptr4\<lparr>remote_cb_payload := Some token\<rparr>), w'))))"

text \<open>
  Modelled from the spec: \<^verbatim>\<open>freeCheckoutOptions\<close> (not in clone.go) is the teardown
  \<open>Release(nativeOptions)\<close> of the checkout translator. The call is recorded.
\<close>

definition freeCheckoutOptions :: "'c translated \<Rightarrow> ('c, 'f) world \<Rightarrow> ('c, 'f) world" where
  "freeCheckoutOptions ptr w = w\<lparr>trace := trace w @ [FreeCheckoutOptions ptr]\<rparr>"

text \<open>\<^verbatim>\<open>freeCloneOptions\<close> (lines 122 to 134).\<close>

definition freeCloneOptions :: "('c, 'f) git_clone_options option \<Rightarrow> ('c, 'f) world \<Rightarrow> ('c, 'f) world" where
  "freeCloneOptions ptr w =
     (case ptr of
        None \<Rightarrow> w
      | Some p \<Rightarrow>
          (let w1 = freeCheckoutOptions (checkout_opts p) w;
               w2 = (case remote_cb_payload p of
                       None \<Rightarrow> w1
                     | Some token \<Rightarrow> handles_Untrack token w1)
           in C_free (checkout_branch p) w2))"

subsection \<open>The native clone primitive\<close>

text \<open>
  Modelled from the spec: the engine is an opaque primitive
  \<open>Clone(url, path, nativeOptions) -> (nativeRepoPtr, code)\<close> that creates the remote at
  most once, through the hook when one is installed and by its own default otherwise. One
  run of it either finishes with a pointer and a code, or reaches the creation of the
  remote for a repository, a name and a url; there \<open>no_hook\<close> is how the call ends when
  the engine builds the remote itself, and \<open>k\<close> how it ends given the pointer the hook
  left in the output parameter and the code the hook returned.
\<close>

datatype engine =
    Finish cptr int
  | CreateRemote cptr cstring cstring "cptr \<times> int" "cptr \<Rightarrow> int \<Rightarrow> cptr \<times> int"

text \<open>The variables of \<^verbatim>\<open>Clone\<close> that outlive its first lines: the two string buffers, the
  address of \<^verbatim>\<open>err\<close>, and \<^verbatim>\<open>cOptions\<close>.\<close>

record ('c, 'f) frame =
  f_curl :: nat
  f_cpath :: nat
  f_err :: nat
  f_cOptions :: "('c, 'f) git_clone_options option"

definition git_clone_args :: "('c, 'f) frame \<Rightarrow> ('c, 'f) world \<Rightarrow> ('c, 'f) native_call" where
  "git_clone_args fr w =
     \<lparr>nc_url = c_heap w (f_curl fr),
      nc_path = c_heap w (f_cpath fr),
      nc_options = f_cOptions fr,
      nc_branch =
        (case f_cOptions fr of
           None \<Rightarrow> None
         | Some p \<Rightarrow> (case checkout_branch p of None \<Rightarrow> None | Some b \<Rightarrow> c_heap w b))\<rparr>"

text \<open>Line 44: the call \<^verbatim>\<open>C.git_clone(&ptr, curl, cpath, cOptions)\<close>.\<close>

definition git_clone ::
  "(('c, 'f) native_call \<Rightarrow> engine) \<Rightarrow> ('c, 'f) frame \<Rightarrow> ('c, 'f) world
     \<Rightarrow> (abort + (cptr \<times> int)) \<times> ('c, 'f) world" where
  "git_clone native fr w0 =
     (let call = git_clone_args fr w0;
          w = w0\<lparr>trace := trace w0 @ [NativeClone call]\<rparr>
      in case native call of
           Finish ptr ret \<Rightarrow> (Inr (ptr, ret), w)
         | CreateRemote crepo cname curl no_hook k \<Rightarrow>
             (case f_cOptions fr of
                None \<Rightarrow> (Inr no_hook, w)
              | Some p \<Rightarrow>
                  if remote_cb p then
                    (case remoteCreateCallback crepo cname curl (remote_cb_payload p) w of
                       (Inl a, w') \<Rightarrow> (Inl a, w')
                     | (Inr (out, code), w') \<Rightarrow>
                         (Inr (k (case out of None \<Rightarrow> None | Some q \<Rightarrow> q) code), w'))
                  else (Inr no_hook, w)))"

subsection \<open>Clone\<close>

text \<open>
  Lines 26 to 38: the buffers, the \<^verbatim>\<open>err\<close> variable, the translation and the branch
  override. Reading \<^verbatim>\<open>options.CheckoutBranch\<close> through a nil \<^verbatim>\<open>options\<close> panics, and so
  would the assignment through a nil \<^verbatim>\<open>cOptions\<close>.
\<close>

definition Clone_setup ::
  "string \<Rightarrow> string \<Rightarrow> ('c, 'f) CloneOptions option \<Rightarrow> ('c, 'f) world
     \<Rightarrow> (abort + unit) \<times> ('c, 'f) frame \<times> ('c, 'f) world" where
  "Clone_setup url path opts w =
     (let (curl, w1) = C_CString url w;
          (cpath, w2) = C_CString path w1;
          (err, w3) = new_error_var w2;
          (cOptions, w4) = populateCloneOptions git_clone_options_zero opts err w3;
          fr = \<lparr>f_curl = curl, f_cpath = cpath, f_err = err, f_cOptions = cOptions\<rparr>
      in case opts of
           None \<Rightarrow> (Inl nil_dereference, fr, w4)
         | Some cfg \<Rightarrow>
             if length (CheckoutBranch cfg) \<noteq> 0 then
               (case cOptions of
                  None \<Rightarrow> (Inl nil_dereference, fr, w4)
                | Some p \<Rightarrow>
                    (let (b, w5) = C_CString (CheckoutBranch cfg) w4
                     in (Inr (), fr\<lparr>f_cOptions := Some (p\<lparr>checkout_branch := Some b\<rparr>)\<rparr>, w5)))
             else (Inr (), fr, w4))"

text \<open>Lines 46 to 53: what \<^verbatim>\<open>Clone\<close> returns for the code \<open>ret\<close>, the content \<open>err\<close> of its
  error variable and the pointer \<open>ptr\<close> that the engine left.\<close>

definition Clone_return ::
  "int \<Rightarrow> go_error option \<Rightarrow> cptr \<Rightarrow> ('c, 'f) world
     \<Rightarrow> (Repository option \<times> go_error option) \<times> ('c, 'f) world" where
  "Clone_return ret err ptr w =
     (if ret = ErrorCodeUser \<and> err \<noteq> None then ((None, err), w)
      else if ret < 0 then ((None, Some (MakeGitError ret)), w)
      else (let (repo, w') = newRepositoryFromC ptr w in ((Some repo, None), w')))"

text \<open>The deferred calls of lines 27, 30 and 34, last one first.\<close>

definition Clone_deferred :: "('c, 'f) frame \<Rightarrow> ('c, 'f) world \<Rightarrow> ('c, 'f) world" where
  "Clone_deferred fr w =
     C_free (Some (f_curl fr)) (C_free (Some (f_cpath fr)) (freeCloneOptions (f_cOptions fr) w))"

text \<open>
  \<^verbatim>\<open>Clone\<close> (lines 25 to 54). A panic runs the deferred calls and goes on to the caller; a
  fatal error of the runtime ends the process where it stands.
\<close>

definition Clone ::
  "(('c, 'f) native_call \<Rightarrow> engine) \<Rightarrow> string \<Rightarrow> string \<Rightarrow> ('c, 'f) CloneOptions option \<Rightarrow> ('c, 'f) world
     \<Rightarrow> (abort + (Repository option \<times> go_error option)) \<times> ('c, 'f) world" where
  "Clone native url path opts w =
     (case Clone_setup url path opts w of
        (Inl a, fr, w1) \<Rightarrow> (Inl a, Clone_deferred fr w1)
      | (Inr u, fr, w1) \<Rightarrow>
          (case git_clone native fr w1 of
             (Inl (Fatal m), w2) \<Rightarrow> (Inl (Fatal m), w2)
           | (Inl (Panic m), w2) \<Rightarrow> (Inl (Panic m), Clone_deferred fr w2)
           | (Inr (ptr, ret), w2) \<Rightarrow>
               (let (res, w3) = Clone_return ret (error_vars w2 (f_err fr)) ptr w2
                in (Inr res, Clone_deferred fr w3))))"

subsection \<open>Concrete inputs\<close>

text \<open>A world with an empty registry, and a configuration with nothing set but a callback
  and a branch.\<close>

definition example_world :: "(unit, unit) world" where
  "example_world =
     \<lparr>handles = [], c_heap = Map.empty, c_next = 1, finalizers = {},
      error_vars = (\<lambda>a. None), go_next = 1, trace = []\<rparr>"

definition example_options :: "RemoteCreateCallback option \<Rightarrow> string \<Rightarrow> (unit, unit) CloneOptions" where
  "example_options cb branch =
     \<lparr>CheckoutOpts = None, FetchOptions = None, Bare = False, CheckoutBranch = branch,
      RemoteCreateCallback = cb\<rparr>"

text \<open>Four callbacks: failing with code \<open>-3\<close> and no remote, failing with a remote,
  succeeding with a remote, succeeding with none.\<close>

definition example_remote :: Remote where
  "example_remote = \<lparr>remote_obj = 20, remote_ptr = Some 21\<rparr>"

definition callback_fails :: RemoteCreateCallback where
  "callback_fails repo name url = (None, - 3)"

definition callback_fails_with_remote :: RemoteCreateCallback where
  "callback_fails_with_remote repo name url = (Some example_remote, - 3)"

definition callback_succeeds :: RemoteCreateCallback where
  "callback_succeeds repo name url = (Some example_remote, 0)"

definition callback_succeeds_without_remote :: RemoteCreateCallback where
  "callback_succeeds_without_remote repo name url = (None, 0)"

text \<open>A world in which token 1 is the callback data of a clone in flight, its error
  variable is at address 0, and the example remote has a finalizer.\<close>

definition example_registered :: "RemoteCreateCallback \<Rightarrow> (unit, unit) world" where
  "example_registered cb =
     example_world\<lparr>handles := [(1, CloneCallbackData \<lparr>options = example_options (Some cb) [], errorTarget = 0\<rparr>)],
       finalizers := {20}\<rparr>"

text \<open>An engine that behaves as libgit2 does: it creates the remote \<^verbatim>\<open>origin\<close>, gives up
  with the hook's code when the hook fails, and otherwise finishes the clone.\<close>

definition example_native :: "(unit, unit) native_call \<Rightarrow> engine" where
  "example_native call =
     CreateRemote (Some 40) (Some ''origin'') (Some ''https://example.com/r.git'') (Some 41, 0)
       (\<lambda>out code. if code < 0 then (None, code) else (Some 41, 0))"

section \<open>Properties\<close>

subsection \<open>The registry\<close>

lemma fresh_handle_gt: "k \<in> set (map fst hs) \<Longrightarrow> k < fresh_handle hs"
  unfolding fresh_handle_def by (induction hs) (fastforce simp: less_Suc_eq_le le_max_iff_disj)+

lemma Untrack_Track:
  "filter (\<lambda>e. fst e \<noteq> fresh_handle hs) (hs @ [(fresh_handle hs, x)]) = hs"
proof -
  have "\<forall>e \<in> set hs. fst e \<noteq> fresh_handle hs"
    using fresh_handle_gt [of _ hs] by fastforce
  then show ?thesis by simp
qed

subsection \<open>The trampoline, once the payload resolves\<close>

lemmas trampoline_defs = remoteCreateCallback_def newRepositoryFromC_def
  runtime_SetFinalizer_nil_def handles_Get_def

lemma remoteCreateCallback_resolved:
  assumes "handles_Get w payload = Inr (CloneCallbackData d)"
    and "RemoteCreateCallback (options d) = Some cb"
    and "cb \<lparr>repository_obj = go_next w, repository_ptr = crepo\<rparr> (C_GoString cname) (C_GoString curl) = (remote, ret)"
  shows "remoteCreateCallback crepo cname curl payload w =
     (case remote of
        None \<Rightarrow>
          (Inl SetFinalizer_fault,
           w\<lparr>trace := trace w @ [Trampoline payload], finalizers := finalizers w - {go_next w},
             go_next := Suc (go_next w)\<rparr>)
      | Some r \<Rightarrow>
          if ret < 0 then
            (Inr (None, ErrorCodeUser),
             w\<lparr>trace := trace w @ [Trampoline payload],
               finalizers := finalizers w - {go_next w} - {remote_obj r},
               go_next := Suc (go_next w),
               error_vars := (error_vars w)(errorTarget d := Some (errors_New (ErrorCode_String ret)))\<rparr>)
          else
            (Inr (Some (remote_ptr r), ErrorCodeOK),
             w\<lparr>trace := trace w @ [Trampoline payload],
               finalizers := finalizers w - {go_next w} - {remote_obj r},
               go_next := Suc (go_next w)\<rparr>))"
proof -
  from assms(1) obtain t where t: "payload = Some t" "map_of (handles w) t = Some (CloneCallbackData d)"
    by (auto simp: handles_Get_def split: option.splits)
  show ?thesis
    using assms(2,3) t
    by (simp add: trampoline_defs Let_def split: option.splits)
qed

lemma remoteCreateCallback_trace:
  "trace (snd (remoteCreateCallback crepo cname curl payload w)) = trace w @ [Trampoline payload]"
  by (simp add: trampoline_defs Let_def split: option.splits sum.splits tracked.splits prod.splits)

lemma remoteCreateCallback_handles:
  "handles (snd (remoteCreateCallback crepo cname curl payload w)) = handles w"
  by (simp add: trampoline_defs Let_def split: option.splits sum.splits tracked.splits prod.splits)

lemma remoteCreateCallback_effect:
  assumes "remoteCreateCallback crepo cname curl payload w = (r, w')"
  shows "trace w' = trace w @ [Trampoline payload]" and "handles w' = handles w"
  using assms remoteCreateCallback_trace [of crepo cname curl payload w]
    remoteCreateCallback_handles [of crepo cname curl payload w]
  by simp_all

subsection \<open>What each part of Clone does to the trace and to the registry\<close>

lemmas setup_defs = Clone_setup_def C_CString_def new_error_var_def populateCloneOptions_def
  git_clone_options_init_def git_clone_options_zero_def populateCheckoutOptions_def
  populateFetchOptions_def go_git_populate_clone_callbacks_def handles_Track_def cbool_def

lemmas release_defs = Clone_deferred_def C_free_def freeCloneOptions_def freeCheckoutOptions_def
  handles_Untrack_def

lemma Clone_setup_ok: "fst (Clone_setup url path (Some cfg) w) = Inr ()"
  by (simp add: setup_defs Let_def split: option.splits prod.splits)

lemma Clone_setup_trace: "trace (snd (snd (Clone_setup url path opts w))) = trace w"
  by (simp add: setup_defs Let_def split: option.splits prod.splits)

lemma Clone_setup_no_callback:
  assumes "RemoteCreateCallback cfg = None"
  shows "handles (snd (snd (Clone_setup url path (Some cfg) w))) = handles w"
    and "\<exists>p. f_cOptions (fst (snd (Clone_setup url path (Some cfg) w))) = Some p
           \<and> \<not> remote_cb p \<and> remote_cb_payload p = None
           \<and> checkout_opts p = TranslatedFrom (CheckoutOpts cfg)"
  using assms by (simp_all add: setup_defs Let_def split: option.splits prod.splits)

lemma git_clone_trace:
  "\<exists>rest. trace (snd (git_clone native fr w)) = trace w @ NativeClone (git_clone_args fr w) # rest"
  by (auto simp: git_clone_def Let_def
      split: engine.splits option.splits sum.splits prod.splits
      dest: remoteCreateCallback_effect(1))

lemma git_clone_handles: "handles (snd (git_clone native fr w)) = handles w"
  by (auto simp: git_clone_def Let_def
      split: engine.splits option.splits sum.splits prod.splits
      dest: remoteCreateCallback_effect(2))

lemma Clone_deferred_trace:
  "trace (Clone_deferred fr w) =
     trace w @ (case f_cOptions fr of None \<Rightarrow> [] | Some p \<Rightarrow> [FreeCheckoutOptions (checkout_opts p)])"
  by (simp add: release_defs Let_def split: option.splits)

lemma Clone_return_trace: "trace (snd (Clone_return ret err ptr w)) = trace w"
  by (simp add: Clone_return_def newRepositoryFromC_def)

lemma Clone_return_handles: "handles (snd (Clone_return ret err ptr w)) = handles w"
  by (simp add: Clone_return_def newRepositoryFromC_def)

lemma Clone_trace:
  assumes "Clone_setup url path (Some cfg) w = (st, fr, w1)"
  shows "\<exists>rest. trace (snd (Clone native url path (Some cfg) w)) =
           trace w @ NativeClone (git_clone_args fr w1) # rest"
proof -
  have st: "st = Inr ()"
    using Clone_setup_ok [of url path cfg w] assms by simp
  have tr: "trace w1 = trace w"
    using Clone_setup_trace [of url path "Some cfg" w] assms by simp
  obtain rest where rest:
    "trace (snd (git_clone native fr w1)) = trace w @ NativeClone (git_clone_args fr w1) # rest"
    using git_clone_trace [of native fr w1] tr by auto
  show ?thesis
  proof (cases "git_clone native fr w1")
    case (Pair r w2)
    with rest have w2: "trace w2 = trace w @ NativeClone (git_clone_args fr w1) # rest" by simp
    show ?thesis
    proof (cases r)
      case (Inl a)
      with Pair assms st w2 show ?thesis
        by (cases a) (simp_all add: Clone_def Clone_deferred_trace)
    next
      case (Inr pr)
      obtain res w3 where r3: "Clone_return (snd pr) (error_vars w2 (f_err fr)) (fst pr) w2 = (res, w3)"
        by (cases "Clone_return (snd pr) (error_vars w2 (f_err fr)) (fst pr) w2")
      then have "trace w3 = trace w2"
        using Clone_return_trace [of "snd pr" "error_vars w2 (f_err fr)" "fst pr" w2] by simp
      with Inr Pair assms st w2 r3 show ?thesis
        by (cases pr) (simp add: Clone_def Clone_deferred_trace)
    qed
  qed
qed

lemma Clone_deferred_handles:
  "handles (Clone_deferred fr w) =
     (case f_cOptions fr of
        None \<Rightarrow> handles w
      | Some p \<Rightarrow>
          (case remote_cb_payload p of
             None \<Rightarrow> handles w
           | Some t \<Rightarrow> filter (\<lambda>e. fst e \<noteq> t) (handles w)))"
  by (simp add: release_defs Let_def split: option.splits)

lemma Clone_deferred_finalizers: "finalizers (Clone_deferred fr w) = finalizers w"
  by (simp add: release_defs Let_def split: option.splits)

lemma populateCloneOptions_world:
  assumes "populateCloneOptions ptr opts target w = (res, w1)"
  shows "case res of
           None \<Rightarrow> opts = None \<and> w1 = w
         | Some p \<Rightarrow>
             (case remote_cb_payload p of
                None \<Rightarrow> w1 = w
              | Some t \<Rightarrow> t = fresh_handle (handles w)
                  \<and> (\<exists>x. w1 = w\<lparr>handles := handles w @ [(t, x)]\<rparr>))"
  using assms
  by (auto simp: setup_defs Let_def split: option.splits)

subsection \<open>Evaluating the concrete inputs\<close>

lemmas example_defs = example_world_def example_options_def example_remote_def
  callback_fails_def callback_fails_with_remote_def callback_succeeds_def
  callback_succeeds_without_remote_def example_registered_def example_native_def

section \<open>The claims\<close>

subsection \<open>Clone\<close>

text \<open>
  C1. Whenever \<^verbatim>\<open>Clone\<close> gets as far as the return of the native clone primitive, with code
  \<open>ret\<close> and pointer \<open>ptr\<close>: if \<open>ret\<close> is the user-failure sentinel and the error variable
  holds an error captured by the trampoline, \<^verbatim>\<open>Clone\<close> returns that error; otherwise, if
  \<open>ret\<close> is negative, it returns \<^verbatim>\<open>MakeGitError(ret)\<close>; otherwise it returns a new wrapper
  of \<open>ptr\<close>, and that wrapper is the owner (it has a finalizer).
\<close>

theorem Clone_interprets_return_code:
  assumes "Clone_setup url path opts w = (Inr (), fr, w1)"
    and "git_clone native fr w1 = (Inr (ptr, ret), w2)"
  shows "fst (Clone native url path opts w) =
           Inr (if ret = ErrorCodeUser \<and> error_vars w2 (f_err fr) \<noteq> None
                  then (None, error_vars w2 (f_err fr))
                else if ret < 0 then (None, Some (MakeGitError ret))
                else (Some \<lparr>repository_obj = go_next w2, repository_ptr = ptr\<rparr>, None))
       \<and> finalizers (snd (Clone native url path opts w)) =
           (if ret = ErrorCodeUser \<and> error_vars w2 (f_err fr) \<noteq> None then finalizers w2
            else if ret < 0 then finalizers w2
            else insert (go_next w2) (finalizers w2))"
  using assms
  by (simp add: Clone_def Clone_return_def newRepositoryFromC_def Clone_deferred_finalizers)

theorem Clone_interprets_return_code_witness:
  "fst (Clone_setup ''https://example.com/r.git'' ''/tmp/r''
          (Some (example_options (Some callback_fails_with_remote) [])) example_world) = Inr ()
   \<and> fst (git_clone example_native
          (fst (snd (Clone_setup ''https://example.com/r.git'' ''/tmp/r''
             (Some (example_options (Some callback_fails_with_remote) [])) example_world)))
          (snd (snd (Clone_setup ''https://example.com/r.git'' ''/tmp/r''
             (Some (example_options (Some callback_fails_with_remote) [])) example_world))))
        = Inr (None, ErrorCodeUser)
   \<and> fst (Clone example_native ''https://example.com/r.git'' ''/tmp/r''
          (Some (example_options (Some callback_fails_with_remote) [])) example_world)
        = Inr (None, Some (errors_New (ErrorCode_String (- 3))))"
proof -
  let ?opts = "Some (example_options (Some callback_fails_with_remote) [])"
  let ?s = "Clone_setup ''https://example.com/r.git'' ''/tmp/r'' ?opts example_world"
  let ?fr = "fst (snd ?s)"
  let ?w1 = "snd (snd ?s)"
  let ?g = "git_clone example_native ?fr ?w1"
  have s1: "fst ?s = Inr ()"
    by (rule Clone_setup_ok)
  then have h1: "?s = (Inr (), ?fr, ?w1)"
    by (simp add: prod_eq_iff)
  have g: "fst ?g = Inr (None, ErrorCodeUser)"
    and e: "error_vars (snd ?g) (f_err ?fr) = Some (errors_New (ErrorCode_String (- 3)))"
    by (simp_all add: git_clone_def git_clone_args_def trampoline_defs setup_defs example_defs
        fresh_handle_def Let_def ErrorCodeUser_def)
  have h2: "?g = (Inr (None, ErrorCodeUser), snd ?g)"
    using g by (simp add: prod_eq_iff)
  from Clone_interprets_return_code [OF h1 h2] e s1 g
  show ?thesis
    by simp
qed

text \<open>
  C2. The claim is that every negative code from the callback is stored as an error and
  turned into the sentinel, so that \<^verbatim>\<open>Clone\<close> returns the callback's error. The code
  misses the usual case in which the callback returns no remote with its negative code:
  evaluated on the callback that returns \<^verbatim>\<open>(nil, -3)\<close>, the trampoline ends in the fault of
  the finalizer step, the error variable stays empty, and \<^verbatim>\<open>Clone\<close> returns nothing.
\<close>

theorem callback_error_without_remote_is_lost:
  "fst (remoteCreateCallback (Some 40) (Some ''origin'') (Some ''https://example.com/r.git'') (Some 1)
      (example_registered callback_fails)) = Inl SetFinalizer_fault
   \<and> error_vars (snd (remoteCreateCallback (Some 40) (Some ''origin'') (Some ''https://example.com/r.git'')
      (Some 1) (example_registered callback_fails))) 0 = None
   \<and> fst (Clone example_native ''https://example.com/r.git'' ''/tmp/r''
      (Some (example_options (Some callback_fails) [])) example_world) = Inl SetFinalizer_fault"
  by (simp add: Clone_def git_clone_def git_clone_args_def trampoline_defs setup_defs example_defs
      fresh_handle_def Let_def SetFinalizer_fault_def)

text \<open>
  C3. With a nil configuration the translation yields the nil options pointer (the
  engine's defaults, no hook) and leaves the world alone, as claimed. \<^verbatim>\<open>Clone\<close> however
  reads \<^verbatim>\<open>options.CheckoutBranch\<close> on line 36 and panics there, whatever the engine, the url
  and the path: the native clone primitive is never called.
\<close>

theorem Clone_nil_options_panics:
  "populateCloneOptions ptr None target w = (None, w)
   \<and> fst (Clone native url path None w) = Inl nil_dereference
   \<and> trace (snd (Clone native url path None w)) = trace w
   \<and> handles (snd (Clone native url path None w)) = handles w"
  by (simp add: Clone_def setup_defs release_defs Let_def)

subsection \<open>Releasing the options\<close>

text \<open>
  C4, as stated, fails: applied to the translation of a configuration with no callback
  and no branch, \<^verbatim>\<open>freeCloneOptions\<close> calls the teardown of the checkout translator on the
  checkout sub-options (line 127).
\<close>

theorem freeCloneOptions_releases_checkout_options:
  "trace example_world = []
   \<and> trace (freeCloneOptions
        (fst (populateCloneOptions git_clone_options_zero (Some (example_options None [])) 0 example_world))
        (snd (populateCloneOptions git_clone_options_zero (Some (example_options None [])) 0 example_world)))
     = [FreeCheckoutOptions (TranslatedFrom None)]"
  by (simp add: setup_defs release_defs example_defs Let_def)

text \<open>
  C4, amended. Let \<open>res\<close> be the result of translating any configuration in a world \<open>w\<close>,
  and let \<open>w2\<close> be a later world with the same registry. On a nil pointer the release
  function does nothing. Otherwise the payload field is set exactly when the translation
  registered an entry, and releasing the options (with any branch field \<open>b\<close>) changes three
  things and nothing else: the registry is again what it was before the translation, the
  branch buffer is freed if there is one, and the teardown of the checkout translator has
  been called once on the checkout sub-options. Nothing of the fetch sub-options is
  released.
\<close>

theorem freeCloneOptions_releases_what_translation_allocated:
  assumes "populateCloneOptions ptr opts target w = (res, w1)"
    and "handles w2 = handles w1"
  shows "freeCloneOptions None w2 = w2
       \<and> (case res of
            None \<Rightarrow> handles w1 = handles w
          | Some p \<Rightarrow>
              (remote_cb_payload p = None) = (handles w1 = handles w)
              \<and> freeCloneOptions (Some (p\<lparr>checkout_branch := b\<rparr>)) w2 =
                  w2\<lparr>trace := trace w2 @ [FreeCheckoutOptions (checkout_opts p)],
                    handles := handles w,
                    c_heap := (case b of None \<Rightarrow> c_heap w2 | Some a \<Rightarrow> (c_heap w2)(a := None))\<rparr>)"
proof -
  have nil: "freeCloneOptions None w2 = w2"
    by (simp add: freeCloneOptions_def)
  show ?thesis
  proof (cases res)
    case None
    with populateCloneOptions_world [OF assms(1)] nil show ?thesis by simp
  next
    case (Some p)
    show ?thesis
    proof (cases "remote_cb_payload p")
      case None
      with Some populateCloneOptions_world [OF assms(1)] have "w1 = w" by simp
      with None Some assms(2) nil show ?thesis
        by (cases b) (simp_all add: release_defs Let_def)
    next
      case (Some t)
      with \<open>res = Some p\<close> populateCloneOptions_world [OF assms(1)] obtain x
        where t: "t = fresh_handle (handles w)" and w1: "w1 = w\<lparr>handles := handles w @ [(t, x)]\<rparr>"
        by auto
      have "filter (\<lambda>e. fst e \<noteq> t) (handles w2) = handles w"
        using assms(2) w1 t Untrack_Track [of "handles w" x] by simp
      moreover have "handles w1 \<noteq> handles w"
        using w1 by simp
      ultimately show ?thesis
        using Some \<open>res = Some p\<close> nil
        by (cases b) (simp_all add: release_defs Let_def)
    qed
  qed
qed

theorem freeCloneOptions_releases_what_translation_allocated_witness:
  "fst (populateCloneOptions git_clone_options_zero (Some (example_options (Some callback_succeeds) ''dev'')) 0
      (example_registered callback_fails))
     = Some \<lparr>checkout_opts = TranslatedFrom None, fetch_opts = TranslatedFrom None, bare = 0,
         checkout_branch = None, remote_cb = True, remote_cb_payload = Some 2\<rparr>
   \<and> map fst (handles (snd (populateCloneOptions git_clone_options_zero
        (Some (example_options (Some callback_succeeds) ''dev'')) 0 (example_registered callback_fails))))
     = [1, 2]
   \<and> handles (freeCloneOptions
        (Some \<lparr>checkout_opts = TranslatedFrom None, fetch_opts = TranslatedFrom None, bare = 0,
           checkout_branch = Some 7, remote_cb = True, remote_cb_payload = Some 2\<rparr>)
        (snd (populateCloneOptions git_clone_options_zero
           (Some (example_options (Some callback_succeeds) ''dev'')) 0 (example_registered callback_fails))))
     = handles (example_registered callback_fails)"
proof -
  let ?w = "example_registered callback_fails"
  let ?t = "populateCloneOptions git_clone_options_zero (Some (example_options (Some callback_succeeds) ''dev'')) 0 ?w"
  let ?p = "\<lparr>checkout_opts = TranslatedFrom None, fetch_opts = TranslatedFrom None, bare = 0,
         checkout_branch = None, remote_cb = True, remote_cb_payload = Some 2\<rparr> :: (unit, unit) git_clone_options"
  have r: "fst ?t = Some ?p" and k: "map fst (handles (snd ?t)) = [1, 2]"
    by (simp_all add: setup_defs example_defs fresh_handle_def Let_def)
  then have h1: "?t = (Some ?p, snd ?t)"
    by (simp add: prod_eq_iff)
  have h2: "handles (snd ?t) = handles (snd ?t)" by simp
  from freeCloneOptions_releases_what_translation_allocated [OF h1 h2, of "Some 7"] r k
  show ?thesis
    by simp
qed

subsection \<open>The branch override\<close>

text \<open>
  C5. In every \<^verbatim>\<open>Clone\<close> call with a configuration, the native clone primitive is called.
  If \<^verbatim>\<open>CheckoutBranch\<close> is not empty, the options it receives are the translated ones with
  the branch field pointing to a buffer that holds the bytes of that string and the
  terminator, whatever the checkout configuration is; if it is empty, the options are
  exactly what the translation produced, and the branch field is \<^verbatim>\<open>NULL\<close>.
\<close>

theorem Clone_branch_override:
  "\<exists>call rest.
      trace (snd (Clone native url path (Some cfg) w)) = trace w @ NativeClone call # rest
    \<and> (if CheckoutBranch cfg \<noteq> [] then
         (\<exists>p b. fst (populateCloneOptions git_clone_options_zero (Some cfg) (go_next w) w) = Some p
            \<and> nc_options call = Some (p\<lparr>checkout_branch := Some b\<rparr>))
         \<and> nc_branch call = Some (CheckoutBranch cfg @ [CHR 0x00])
       else
         nc_options call = fst (populateCloneOptions git_clone_options_zero (Some cfg) (go_next w) w)
         \<and> nc_branch call = None)"
proof -
  obtain st fr w1 where s: "Clone_setup url path (Some cfg) w = (st, fr, w1)"
    by (cases "Clone_setup url path (Some cfg) w") auto
  from Clone_trace [OF s] obtain rest where
    t: "trace (snd (Clone native url path (Some cfg) w)) = trace w @ NativeClone (git_clone_args fr w1) # rest"
    by blast
  have "if CheckoutBranch cfg \<noteq> [] then
         (\<exists>p b. fst (populateCloneOptions git_clone_options_zero (Some cfg) (go_next w) w) = Some p
            \<and> nc_options (git_clone_args fr w1) = Some (p\<lparr>checkout_branch := Some b\<rparr>))
         \<and> nc_branch (git_clone_args fr w1) = Some (CheckoutBranch cfg @ [CHR 0x00])
       else
         nc_options (git_clone_args fr w1) = fst (populateCloneOptions git_clone_options_zero (Some cfg) (go_next w) w)
         \<and> nc_branch (git_clone_args fr w1) = None"
    using s
    by (auto simp: setup_defs git_clone_args_def Let_def split: option.splits prod.splits if_splits)
  with t show ?thesis by blast
qed

theorem Clone_branch_override_witness:
  "CheckoutBranch (example_options None ''dev'') = ''dev''
   \<and> (\<exists>call rest. trace (snd (Clone example_native ''https://example.com/r.git'' ''/tmp/r''
         (Some (example_options None ''dev'')) example_world)) = NativeClone call # rest
       \<and> nc_branch call = Some (''dev'' @ [CHR 0x00]))"
proof -
  have b: "CheckoutBranch (example_options None ''dev'') = ''dev''"
    by (simp add: example_options_def)
  have t: "trace example_world = []"
    by (simp add: example_world_def)
  from Clone_branch_override [of example_native "''https://example.com/r.git''" "''/tmp/r''"
      "example_options None ''dev''" example_world]
  show ?thesis
    unfolding b t by auto
qed

subsection \<open>The trampoline\<close>

text \<open>
  C6. When the payload resolves and the callback returns a code that is not negative and
  no remote, the trampoline returns nothing to the engine: it is stopped by the runtime at
  the finalizer step of line 77, before the panic of line 85 could be reached.
\<close>

theorem trampoline_success_without_remote_aborts:
  assumes "handles_Get w payload = Inr (CloneCallbackData d)"
    and "RemoteCreateCallback (options d) = Some cb"
    and "cb \<lparr>repository_obj = go_next w, repository_ptr = crepo\<rparr> (C_GoString cname) (C_GoString curl) = (None, ret)"
    and "0 \<le> ret"
  shows "fst (remoteCreateCallback crepo cname curl payload w) = Inl SetFinalizer_fault"
  using remoteCreateCallback_resolved [OF assms(1,2,3)] by simp

theorem trampoline_success_without_remote_aborts_witness:
  "handles_Get (example_registered callback_succeeds_without_remote) (Some 1)
     = Inr (CloneCallbackData
         \<lparr>options = example_options (Some callback_succeeds_without_remote) [], errorTarget = 0\<rparr>)
   \<and> callback_succeeds_without_remote \<lparr>repository_obj = 1, repository_ptr = Some 40\<rparr> ''origin'' ''u'' = (None, 0)
   \<and> fst (remoteCreateCallback (Some 40) (Some ''origin'') (Some ''u'') (Some 1)
        (example_registered callback_succeeds_without_remote)) = Inl SetFinalizer_fault"
proof -
  let ?cb = callback_succeeds_without_remote
  have h1: "handles_Get (example_registered ?cb) (Some 1)
     = Inr (CloneCallbackData \<lparr>options = example_options (Some ?cb) [], errorTarget = 0\<rparr>)"
    by (simp add: handles_Get_def example_defs)
  have h2: "RemoteCreateCallback (options \<lparr>options = example_options (Some ?cb) [], errorTarget = 0\<rparr>)
     = Some ?cb"
    by (simp add: example_options_def)
  have h3: "?cb \<lparr>repository_obj = go_next (example_registered ?cb), repository_ptr = Some 40\<rparr>
      (C_GoString (Some ''origin'')) (C_GoString (Some ''u'')) = (None, 0)"
    by (simp add: callback_succeeds_without_remote_def)
  have h4: "(0 :: int) \<le> 0" by simp
  from trampoline_success_without_remote_aborts [OF h1 h2 h3 h4] h1
  show ?thesis
    by (simp add: callback_succeeds_without_remote_def)
qed

text \<open>
  C7. When the payload resolves and the callback returns a remote and a code that is not
  negative, the trampoline writes the native pointer of the remote through the output
  parameter and returns \<^verbatim>\<open>ErrorCodeOK\<close>; afterwards the remote has no finalizer, and no error
  variable has changed.
\<close>

theorem trampoline_success_hands_over_remote:
  assumes "handles_Get w payload = Inr (CloneCallbackData d)"
    and "RemoteCreateCallback (options d) = Some cb"
    and "cb \<lparr>repository_obj = go_next w, repository_ptr = crepo\<rparr> (C_GoString cname) (C_GoString curl) = (Some r, ret)"
    and "0 \<le> ret"
  shows "fst (remoteCreateCallback crepo cname curl payload w) = Inr (Some (remote_ptr r), ErrorCodeOK)
       \<and> remote_obj r \<notin> finalizers (snd (remoteCreateCallback crepo cname curl payload w))
       \<and> error_vars (snd (remoteCreateCallback crepo cname curl payload w)) = error_vars w"
  using remoteCreateCallback_resolved [OF assms(1,2,3)] assms(4) by simp

theorem trampoline_success_hands_over_remote_witness:
  "handles_Get (example_registered callback_succeeds) (Some 1)
     = Inr (CloneCallbackData \<lparr>options = example_options (Some callback_succeeds) [], errorTarget = 0\<rparr>)
   \<and> callback_succeeds \<lparr>repository_obj = 1, repository_ptr = Some 40\<rparr> ''origin'' ''u'' = (Some example_remote, 0)
   \<and> remote_obj example_remote \<in> finalizers (example_registered callback_succeeds)
   \<and> fst (remoteCreateCallback (Some 40) (Some ''origin'') (Some ''u'') (Some 1)
        (example_registered callback_succeeds)) = Inr (Some (Some 21), 0)
   \<and> remote_obj example_remote \<notin> finalizers (snd (remoteCreateCallback (Some 40) (Some ''origin'') (Some ''u'')
        (Some 1) (example_registered callback_succeeds)))"
proof -
  let ?cb = callback_succeeds
  have h1: "handles_Get (example_registered ?cb) (Some 1)
     = Inr (CloneCallbackData \<lparr>options = example_options (Some ?cb) [], errorTarget = 0\<rparr>)"
    by (simp add: handles_Get_def example_defs)
  have h2: "RemoteCreateCallback (options \<lparr>options = example_options (Some ?cb) [], errorTarget = 0\<rparr>)
     = Some ?cb"
    by (simp add: example_options_def)
  have h3: "?cb \<lparr>repository_obj = go_next (example_registered ?cb), repository_ptr = Some 40\<rparr>
      (C_GoString (Some ''origin'')) (C_GoString (Some ''u'')) = (Some example_remote, 0)"
    by (simp add: callback_succeeds_def)
  have h4: "(0 :: int) \<le> 0" by simp
  from trampoline_success_hands_over_remote [OF h1 h2 h3 h4] h1
  show ?thesis
    by (simp add: callback_succeeds_def example_remote_def ErrorCodeOK_def example_registered_def
        example_world_def)
qed

subsection \<open>Without a callback\<close>

text \<open>
  C8. For every configuration without a callback: the translation touches no registry
  entry, installs no hook and leaves the payload \<^verbatim>\<open>NULL\<close>; and after \<^verbatim>\<open>Clone\<close>, whatever the
  engine does, the registry is what it was, and the calls recorded are the native clone
  and the checkout teardown, with no call of the trampoline.
\<close>

theorem no_callback_leaves_registry_alone:
  assumes "RemoteCreateCallback cfg = None"
  shows "(\<exists>p. populateCloneOptions ptr (Some cfg) target w = (Some p, w)
            \<and> \<not> remote_cb p \<and> remote_cb_payload p = None)
       \<and> handles (snd (Clone native url path (Some cfg) w)) = handles w
       \<and> (\<exists>call. trace (snd (Clone native url path (Some cfg) w)) =
            trace w @ [NativeClone call, FreeCheckoutOptions (TranslatedFrom (CheckoutOpts cfg))])"
proof -
  have translate: "\<exists>p. populateCloneOptions ptr (Some cfg) target w = (Some p, w)
            \<and> \<not> remote_cb p \<and> remote_cb_payload p = None"
    using assms by (simp add: setup_defs Let_def)
  obtain st fr w1 where s: "Clone_setup url path (Some cfg) w = (st, fr, w1)"
    by (cases "Clone_setup url path (Some cfg) w") auto
  have st: "st = Inr ()"
    using Clone_setup_ok [of url path cfg w] s by simp
  have tr: "trace w1 = trace w"
    using Clone_setup_trace [of url path "Some cfg" w] s by simp
  have hs: "handles w1 = handles w"
    using Clone_setup_no_callback(1) [OF assms, of url path w] s by simp
  obtain p where p: "f_cOptions fr = Some p" "\<not> remote_cb p" "remote_cb_payload p = None"
      "checkout_opts p = TranslatedFrom (CheckoutOpts cfg)"
    using Clone_setup_no_callback(2) [OF assms, of url path w] s by auto
  let ?w2 = "w1\<lparr>trace := trace w1 @ [NativeClone (git_clone_args fr w1)]\<rparr>"
  obtain x where g: "git_clone native fr w1 = (Inr x, ?w2)"
    using p by (cases "native (git_clone_args fr w1)") (simp_all add: git_clone_def Let_def)
  obtain res w3 where r3: "Clone_return (snd x) (error_vars ?w2 (f_err fr)) (fst x) ?w2 = (res, w3)"
    by (cases "Clone_return (snd x) (error_vars ?w2 (f_err fr)) (fst x) ?w2")
  have w3: "trace w3 = trace ?w2" "handles w3 = handles ?w2"
    using Clone_return_trace [of "snd x" "error_vars ?w2 (f_err fr)" "fst x" ?w2]
      Clone_return_handles [of "snd x" "error_vars ?w2 (f_err fr)" "fst x" ?w2] r3 by simp_all
  have c: "snd (Clone native url path (Some cfg) w) = Clone_deferred fr w3"
    using s st g r3 by (cases x) (simp add: Clone_def)
  have "handles (snd (Clone native url path (Some cfg) w)) = handles w"
    using c p w3 hs by (simp add: Clone_deferred_handles)
  moreover have "trace (snd (Clone native url path (Some cfg) w)) =
      trace w @ [NativeClone (git_clone_args fr w1), FreeCheckoutOptions (TranslatedFrom (CheckoutOpts cfg))]"
    using c p w3 tr by (simp add: Clone_deferred_trace)
  ultimately show ?thesis
    using translate by blast
qed

theorem no_callback_leaves_registry_alone_witness:
  "RemoteCreateCallback (example_options None ''dev'') = None
   \<and> handles (snd (Clone example_native ''https://example.com/r.git'' ''/tmp/r''
        (Some (example_options None ''dev'')) (example_registered callback_succeeds)))
      = handles (example_registered callback_succeeds)
   \<and> length (trace (snd (Clone example_native ''https://example.com/r.git'' ''/tmp/r''
        (Some (example_options None ''dev'')) (example_registered callback_succeeds)))) = 2"
proof -
  have h: "RemoteCreateCallback (example_options None ''dev'') = None"
    by (simp add: example_options_def)
  have t: "trace (example_registered callback_succeeds) = []"
    by (simp add: example_registered_def example_world_def)
  from no_callback_leaves_registry_alone [OF h, of git_clone_options_zero 0
      "example_registered callback_succeeds" example_native "''https://example.com/r.git''" "''/tmp/r''"]
  obtain call where "trace (snd (Clone example_native ''https://example.com/r.git'' ''/tmp/r''
        (Some (example_options None ''dev'')) (example_registered callback_succeeds))) =
      [NativeClone call, FreeCheckoutOptions (TranslatedFrom (CheckoutOpts (example_options None ''dev'')))]"
    and "handles (snd (Clone example_native ''https://example.com/r.git'' ''/tmp/r''
        (Some (example_options None ''dev'')) (example_registered callback_succeeds)))
      = handles (example_registered callback_succeeds)"
    using t by auto
  with h show ?thesis by simp
qed

subsection \<open>A payload that does not resolve, and a failure without a remote\<close>

text \<open>
  C9. Whenever the payload token does not resolve in the handle registry to the callback
  data of a clone (the token is \<^verbatim>\<open>NULL\<close>, is not tracked, or is tracked for an object of
  another kind), the trampoline panics: with the registry's panic in the first two cases,
  with \<^verbatim>\<open>invalid remote create callback\<close> in the third. It returns no code to the engine.
\<close>

theorem trampoline_unresolved_payload_panics:
  assumes "\<forall>d. handles_Get w payload \<noteq> Inr (CloneCallbackData d)"
  shows "fst (remoteCreateCallback crepo cname curl payload w) = Inl (Panic ''invalid pointer handle'')
       \<or> fst (remoteCreateCallback crepo cname curl payload w) = Inl (Panic ''invalid remote create callback'')"
proof (cases payload)
  case None
  then show ?thesis
    by (simp add: trampoline_defs Let_def)
next
  case (Some t)
  show ?thesis
  proof (cases "map_of (handles w) t")
    case None
    with Some show ?thesis
      by (simp add: trampoline_defs Let_def)
  next
    case (Some obj)
    with \<open>payload = Some t\<close> assms obtain x where "obj = OtherObject x"
      by (cases obj) (auto simp: handles_Get_def)
    with Some \<open>payload = Some t\<close> show ?thesis
      by (simp add: trampoline_defs Let_def)
  qed
qed

theorem trampoline_unresolved_payload_panics_witness:
  "handles_Get (example_registered callback_succeeds) (Some 2) = Inl (Panic ''invalid pointer handle'')
   \<and> fst (remoteCreateCallback (Some 40) (Some ''origin'') (Some ''u'') (Some 2)
        (example_registered callback_succeeds)) = Inl (Panic ''invalid pointer handle'')"
proof -
  have h: "\<forall>d. handles_Get (example_registered callback_succeeds) (Some 2) \<noteq> Inr (CloneCallbackData d)"
    by (simp add: handles_Get_def example_defs)
  have "fst (remoteCreateCallback (Some 40) (Some ''origin'') (Some ''u'') (Some 2)
        (example_registered callback_succeeds)) \<noteq> Inl (Panic ''invalid remote create callback'')"
    by (simp add: trampoline_defs Let_def example_defs)
  with trampoline_unresolved_payload_panics [OF h, of "Some 40" "Some ''origin''" "Some ''u''"]
  show ?thesis
    by (simp add: handles_Get_def example_defs)
qed

text \<open>
  C10. The finalizer of the remote that the callback returned is cleared (line 77) before
  the result code is looked at (line 79). So when the callback returns a nil remote and a
  negative code, the trampoline stops at that step with the runtime's fault, and the error
  variable that the callback data points to is left as it was: the branch that stores the
  error and returns the sentinel is never reached.
\<close>

theorem trampoline_nil_remote_with_error_faults:
  assumes "handles_Get w payload = Inr (CloneCallbackData d)"
    and "RemoteCreateCallback (options d) = Some cb"
    and "cb \<lparr>repository_obj = go_next w, repository_ptr = crepo\<rparr> (C_GoString cname) (C_GoString curl) = (None, ret)"
    and "ret < 0"
  shows "fst (remoteCreateCallback crepo cname curl payload w) = Inl SetFinalizer_fault
       \<and> error_vars (snd (remoteCreateCallback crepo cname curl payload w)) = error_vars w"
  using remoteCreateCallback_resolved [OF assms(1,2,3)] by simp

theorem trampoline_nil_remote_with_error_faults_witness:
  "handles_Get (example_registered callback_fails) (Some 1)
     = Inr (CloneCallbackData \<lparr>options = example_options (Some callback_fails) [], errorTarget = 0\<rparr>)
   \<and> callback_fails \<lparr>repository_obj = 1, repository_ptr = Some 40\<rparr> ''origin'' ''u'' = (None, - 3)
   \<and> fst (remoteCreateCallback (Some 40) (Some ''origin'') (Some ''u'') (Some 1)
        (example_registered callback_fails)) = Inl SetFinalizer_fault
   \<and> error_vars (snd (remoteCreateCallback (Some 40) (Some ''origin'') (Some ''u'') (Some 1)
        (example_registered callback_fails))) 0 = None"
proof -
  have h1: "handles_Get (example_registered callback_fails) (Some 1)
     = Inr (CloneCallbackData \<lparr>options = example_options (Some callback_fails) [], errorTarget = 0\<rparr>)"
    by (simp add: handles_Get_def example_defs)
  have h2: "RemoteCreateCallback (options \<lparr>options = example_options (Some callback_fails) [], errorTarget = 0\<rparr>)
     = Some callback_fails"
    by (simp add: example_options_def)
  have h3: "callback_fails \<lparr>repository_obj = go_next (example_registered callback_fails), repository_ptr = Some 40\<rparr>
      (C_GoString (Some ''origin'')) (C_GoString (Some ''u'')) = (None, - 3)"
    by (simp add: callback_fails_def)
  have h4: "(- 3 :: int) < 0" by simp
  from trampoline_nil_remote_with_error_faults [OF h1 h2 h3 h4] h1
  show ?thesis
    by (simp add: callback_fails_def example_registered_def example_world_def)
qed

end
